theory Spec2Isabelle
  imports Main
begin

section \<open>Data model\<close>

text \<open>
  Go's \<open>int64\<close> values (seconds, delivery counts) and \<open>time.Duration\<close> (nanoseconds)
  are modelled as \<open>int\<close>: none of the operations below can leave the 64-bit range
  (\<open>tries--\<close> runs only on a positive value, \<open>secs--\<close> only on one of at least 43200).
  A Go pointer that may be nil (\<open>*string\<close>) is an \<open>option\<close>; a Go map, whose nil value
  has no key, is a partial function.
\<close>

datatype error =
    ErrAlreadyHandled \<comment> \<open>\<open>errors.New("job already handled")\<close>\<close>
  | ErrEmptyBody \<comment> \<open>\<open>errors.New("job body is empty")\<close>\<close>
  | ErrReceiveCount \<comment> \<open>\<open>errors.New("failed to get recieve count off sqs message")\<close>\<close>
  | ErrSyntax \<comment> \<open>\<open>strconv.ErrSyntax\<close>, inside a \<open>*NumError\<close>\<close>
  | ErrRange \<comment> \<open>\<open>strconv.ErrRange\<close>, inside a \<open>*NumError\<close>\<close>
  | ErrOther string \<comment> \<open>any other error value: the transport's, the handler's\<close>

text \<open>A Go call either returns or panics; the model panics exactly where the source
  dereferences a nil pointer.\<close>

datatype 'a outcome = Returned 'a | Panicked

record MessageAttributeValue =
  StringValue :: "string option"

record Message =
  Attributes :: "string \<rightharpoonup> string"
  Body :: "string option"
  MessageAttributes :: "string \<rightharpoonup> MessageAttributeValue"
  MessageId :: "string option"
  ReceiptHandle :: "string option"

record JobConfig =
  BackoffCalc :: "int \<Rightarrow> int"
  MinVisibilityTimeout :: int
  MaxVisibilityTimeout :: int

record ConsumerConfig =
  Count :: int
  RetrievalErrWait :: int
  RetrievalMaxNumberOfMessages :: int
  RetrievalVisibilityTimeout :: int
  RetrievalWaitTimeSeconds :: int
  RunOnce :: bool
  RunSlowly :: int

record Config =
  Consumer :: ConsumerConfig
  Job :: JobConfig
  QueueURL :: string

text \<open>The three requests the code sends, with the input fields it sets.\<close>

datatype request =
    DeleteMessageInput string "string option"
      \<comment> \<open>QueueUrl, ReceiptHandle\<close>
  | ChangeMessageVisibilityInput string "string option" int
      \<comment> \<open>QueueUrl, ReceiptHandle, VisibilityTimeout\<close>
  | ReceiveMessageInput "string list" int "string list" string int int
      \<comment> \<open>AttributeNames, MaxNumberOfMessages, MessageAttributeNames, QueueUrl,
          VisibilityTimeout, WaitTimeSeconds\<close>

text \<open>What the process does to the outside: requests sent to the queue and calls of
  \<open>time.Sleep\<close>, in order.\<close>

datatype event = Send request | Sleep int

text \<open>
  The \<open>sqsiface.SQSAPI\<close> handle: what \<open>req.Send()\<close> answers to a request, given
  everything that happened before it. \<open>Send_err\<close> is the returned error (\<open>None\<close> is
  Go's nil), \<open>Send_Messages\<close> the \<open>Messages\<close> of a \<open>ReceiveMessage\<close> response.
\<close>

record SQSAPI =
  Send_err :: "event list \<Rightarrow> request \<Rightarrow> error option"
  Send_Messages :: "event list \<Rightarrow> request \<Rightarrow> Message list"

text \<open>The process-wide state the code changes: the trace of events and the
  Prometheus counters (the timers are not modelled).\<close>

record world =
  events :: "event list"
  receiveErrorTotal :: nat
  receivedTotal :: nat
  jobPanicTotal :: nat
  jobErrorTotal :: nat
  jobProcessedTotal :: nat

text \<open>\<open>sqsJob\<close> without its logger: logging is modelled only where evaluating a log
  field can panic (\<open>j.ID()\<close>).\<close>

record sqsJob =
  cfg :: Config
  handled :: bool
  msg :: Message
  svc :: SQSAPI

section \<open>job.go\<close>

definition NewJob :: "Config \<Rightarrow> Message \<Rightarrow> SQSAPI \<Rightarrow> sqsJob" where
  "NewJob c m s = \<lparr>cfg = c, handled = False, msg = m, svc = s\<rparr>"

definition Attribute :: "sqsJob \<Rightarrow> string \<Rightarrow> (string \<times> bool) outcome" where
  "Attribute j attr =
     (case MessageAttributes (msg j) attr of
        Some a \<Rightarrow>
          (case StringValue a of
             None \<Rightarrow> Panicked
           | Some v \<Rightarrow> Returned (v, True))
      | None \<Rightarrow>
          (case Attributes (msg j) attr of
             Some a \<Rightarrow> Returned (a, True)
           | None \<Rightarrow> Returned ('''', False)))"

definition ID :: "sqsJob \<Rightarrow> string outcome" where
  "ID j = (case MessageId (msg j) of None \<Rightarrow> Panicked | Some i \<Rightarrow> Returned i)"

definition sqsJob_Body :: "sqsJob \<Rightarrow> string \<times> error option" where
  "sqsJob_Body j =
     (let body = (case Body (msg j) of None \<Rightarrow> '''' | Some b \<Rightarrow> b)
      in if length body = 0 then ('''', Some ErrEmptyBody) else (body, None))"

subsection \<open>\<open>strconv.ParseInt(s, 10, 64)\<close>\<close>

text \<open>
  The standard library's parser, written out for base 10 and 64 bits: \<open>ParseUint\<close> reads
  the digits left to right and stops at the first byte that is no digit (syntax error,
  value 0) or at the first overflow of 64 bits (range error, value \<open>2^64 - 1\<close>);
  \<open>ParseInt\<close> takes one leading sign off and cuts the value at \<open>2^63\<close>. The
  \<open>uint64\<close> accumulator is an \<open>int\<close> that the overflow checks keep below \<open>2^64\<close>.
\<close>

definition is_digit :: "char \<Rightarrow> bool" where
  "is_digit c = (48 \<le> (of_char c :: int) \<and> (of_char c :: int) \<le> 57)"

fun ParseUint_loop :: "string \<Rightarrow> int \<Rightarrow> int \<times> error option" where
  "ParseUint_loop [] n = (n, None)"
| "ParseUint_loop (d # s) n =
     (if \<not> is_digit d then (0, Some ErrSyntax)
      else if n \<ge> (2 ^ 64 - 1) div 10 + 1 then (2 ^ 64 - 1, Some ErrRange)
      else let n1 = n * 10 + (of_char d - 48)
           in if n1 > 2 ^ 64 - 1 then (2 ^ 64 - 1, Some ErrRange)
              else ParseUint_loop s n1)"

definition ParseUint :: "string \<Rightarrow> int \<times> error option" where
  "ParseUint s = (if s = [] then (0, Some ErrSyntax) else ParseUint_loop s 0)"

definition ParseInt :: "string \<Rightarrow> int \<times> error option" where
  "ParseInt s0 =
     (if s0 = [] then (0, Some ErrSyntax)
      else
        let neg = (hd s0 = CHR ''-'');
            s = (if hd s0 = CHR ''+'' \<or> hd s0 = CHR ''-'' then tl s0 else s0);
            (un, err) = ParseUint s
        in if err \<noteq> None \<and> err \<noteq> Some ErrRange then (0, err)
           else if \<not> neg \<and> un \<ge> 2 ^ 63 then (2 ^ 63 - 1, Some ErrRange)
           else if neg \<and> un > 2 ^ 63 then (- (2 ^ 63), Some ErrRange)
           else (if neg then - un else un, None))"

definition ApproximateReceiveCount :: string where
  "ApproximateReceiveCount = ''ApproximateReceiveCount''"

definition Tries :: "sqsJob \<Rightarrow> (int \<times> error option) outcome" where
  "Tries j =
     (case Attribute j ApproximateReceiveCount of
        Panicked \<Rightarrow> Panicked
      | Returned (count, ok) \<Rightarrow>
          if \<not> ok then Returned (0, Some ErrReceiveCount)
          else
            (case ParseInt count of
               (tries, err) \<Rightarrow> Returned (if tries > 0 then tries - 1 else tries, err)))"

definition Handled :: "sqsJob \<Rightarrow> bool" where
  "Handled j = handled j"

text \<open>
  The writers return Go's \<open>error\<close> (\<open>None\<close> is nil) or panic, together with the job and
  the world as the call leaves them. A panic keeps what was written before it: the
  \<open>handled\<close> flag is set before the log line that evaluates \<open>j.ID()\<close>. In
  \<open>Release\<close> each of the two clamps logs first, evaluating \<open>j.ID()\<close>, and assigns
  after it; the ceiling of 12 hours is \<open>int64((12 * time.Hour).Seconds()) = 43200\<close>.
\<close>

definition Delete :: "sqsJob \<Rightarrow> world \<Rightarrow> error option outcome \<times> sqsJob \<times> world" where
  "Delete j w =
     (if handled j then (Returned (Some ErrAlreadyHandled), j, w)
      else
        let req = DeleteMessageInput (QueueURL (cfg j)) (ReceiptHandle (msg j));
            err = Send_err (svc j) (events w) req;
            w' = w\<lparr>events := events w @ [Send req]\<rparr>
        in case err of
             None \<Rightarrow>
               (let j' = j\<lparr>handled := True\<rparr>
                in case ID j' of
                     Panicked \<Rightarrow> (Panicked, j', w')
                   | Returned jid \<Rightarrow> (Returned None, j', w'))
           | Some e \<Rightarrow> (Returned (Some e), j, w'))"

definition Release :: "sqsJob \<Rightarrow> world \<Rightarrow> int \<Rightarrow> error option outcome \<times> sqsJob \<times> world" where
  "Release j w secs =
     (if handled j then (Returned (Some ErrAlreadyHandled), j, w)
      else
        case (if secs < MinVisibilityTimeout (Job (cfg j))
              then (case ID j of
                      Panicked \<Rightarrow> Panicked
                    | Returned jid \<Rightarrow> Returned (MinVisibilityTimeout (Job (cfg j))))
              else Returned secs) of
          Panicked \<Rightarrow> (Panicked, j, w)
        | Returned secs1 \<Rightarrow>
            (case (if secs1 > MaxVisibilityTimeout (Job (cfg j))
                   then (case ID j of
                           Panicked \<Rightarrow> Panicked
                         | Returned jid \<Rightarrow> Returned (MaxVisibilityTimeout (Job (cfg j))))
                   else Returned secs1) of
               Panicked \<Rightarrow> (Panicked, j, w)
             | Returned secs2 \<Rightarrow>
                 let secs3 = (if secs2 \<ge> 43200 then secs2 - 1 else secs2);
                     req = ChangeMessageVisibilityInput (QueueURL (cfg j))
                             (ReceiptHandle (msg j)) secs3;
                     err = Send_err (svc j) (events w) req;
                     w' = w\<lparr>events := events w @ [Send req]\<rparr>
                 in case err of
                      None \<Rightarrow>
                        (let j' = j\<lparr>handled := True\<rparr>
                         in case ID j' of
                              Panicked \<Rightarrow> (Panicked, j', w')
                            | Returned jid \<Rightarrow> (Returned None, j', w'))
                    | Some e \<Rightarrow> (Returned (Some e), j, w')))"

definition Backoff :: "sqsJob \<Rightarrow> world \<Rightarrow> error option outcome \<times> sqsJob \<times> world" where
  "Backoff j w =
     (case Tries j of
        Panicked \<Rightarrow> (Panicked, j, w)
      | Returned (tries, err) \<Rightarrow>
          (case err of
             Some e \<Rightarrow> (Returned (Some e), j, w)
           | None \<Rightarrow>
               (case ID j of
                  Panicked \<Rightarrow> (Panicked, j, w)
                | Returned jid \<Rightarrow> Release j w (BackoffCalc (Job (cfg j)) tries))))"

section \<open>The configuration: \<open>NewDefaultConfig\<close>, \<open>RunOnce\<close>, \<open>RunSlowly\<close>\<close>

text \<open>
  The default \<open>BackoffCalc\<close> closure, for the value \<open>r\<close> that \<open>rand.Int63n(30)\<close>
  draws in the call (\<open>0 \<le> r < 30\<close>): \<open>pow := math.Pow(float64(try), 3)\<close>,
  \<open>jitter := float64(r*try + 1)\<close>, result \<open>int64(pow + 15 + jitter)\<close>. For
  \<open>0 \<le> try \<le> 200000\<close> every intermediate value is an integer below \<open>2^53\<close>, so the
  \<open>float64\<close> arithmetic is exact and the result is the integer expression below; beyond
  that range the rounding of \<open>float64\<close> is not modelled and the model gives \<open>None\<close>.
\<close>

definition default_BackoffCalc :: "int \<Rightarrow> int \<Rightarrow> int option" where
  "default_BackoffCalc r try =
     (if 0 \<le> try \<and> try \<le> 200000 \<and> 0 \<le> r \<and> r < 30
      then (let pow = try ^ 3;
                jitter = r * try + 1
            in Some (pow + 15 + jitter))
      else None)"

text \<open>
  \<open>NewDefaultConfig\<close>. The \<open>BackoffCalc\<close> closure reads the process-wide random source,
  so the configuration is built over \<open>calc\<close>, the function the closure computes in one
  run. Durations are nanoseconds: \<open>30 * time.Second\<close> is \<open>30000000000\<close>.
\<close>

definition NewDefaultConfig :: "(int \<Rightarrow> int) \<Rightarrow> string \<Rightarrow> int \<Rightarrow> Config" where
  "NewDefaultConfig calc queueURL consumerCount =
     \<lparr>Consumer =
        \<lparr>Count = consumerCount,
         RetrievalErrWait = 30 * 1000000000,
         RetrievalMaxNumberOfMessages = 10,
         RetrievalVisibilityTimeout = 600,
         RetrievalWaitTimeSeconds = 20,
         RunOnce = False,
         RunSlowly = 0\<rparr>,
      Job =
        \<lparr>BackoffCalc = calc,
         MinVisibilityTimeout = 10,
         MaxVisibilityTimeout = 43200\<rparr>,
      QueueURL = queueURL\<rparr>"

definition Config_RunOnce :: "Config \<Rightarrow> Config" where
  "Config_RunOnce c =
     c\<lparr>Consumer := (Consumer c)
         \<lparr>Count := 1, RunOnce := True, RunSlowly := 0, RetrievalMaxNumberOfMessages := 1\<rparr>\<rparr>"

definition Config_RunSlowly :: "Config \<Rightarrow> int \<Rightarrow> Config" where
  "Config_RunSlowly c pause =
     c\<lparr>Consumer := (Consumer c)
         \<lparr>Count := 1, RunOnce := False, RunSlowly := pause, RetrievalMaxNumberOfMessages := 1\<rparr>\<rparr>"

section \<open>goller.go\<close>

text \<open>
  A handler is user code: it gets the job and may call its methods, so it is a function
  from the job and the world to what the invocation does, with the job and the world as
  it leaves them. The invocation returns an error value (\<open>None\<close> is nil) or panics with
  a value; \<open>HPanicked None\<close> is \<open>panic(nil)\<close>, for which \<open>recover()\<close> gives nil on the Go
  versions the repository is built with (1.9.2 and 1.10).
\<close>

datatype handler_outcome = HReturned "error option" | HPanicked "string option"

type_synonym HandlerFunc = "sqsJob \<Rightarrow> world \<Rightarrow> handler_outcome \<times> sqsJob \<times> world"

text \<open>
  The body of the goroutine \<open>go func(j Job) {...}(j)\<close> of \<open>handleResponse\<close>: the handler
  call under the deferred \<open>recover\<close>, and the counters. A panic of the handler skips the
  rest of the body and runs the deferred function, which counts only when \<open>recover()\<close>
  gives a value that is not nil.
\<close>

definition handleResponse_go :: "HandlerFunc \<Rightarrow> sqsJob \<Rightarrow> world \<Rightarrow> world" where
  "handleResponse_go handler j w =
     (case handler j w of
        (HPanicked r, j', w') \<Rightarrow>
          if r \<noteq> None
          then w'\<lparr>jobPanicTotal := jobPanicTotal w' + 1, jobErrorTotal := jobErrorTotal w' + 1\<rparr>
          else w'
      | (HReturned err, j', w') \<Rightarrow>
          let w1 = (if err \<noteq> None then w'\<lparr>jobErrorTotal := jobErrorTotal w' + 1\<rparr> else w')
          in if \<not> Handled j'
             then w1\<lparr>jobErrorTotal := jobErrorTotal w1 + 1\<rparr>
             else w1\<lparr>jobProcessedTotal := jobProcessedTotal w1 + 1\<rparr>)"

text \<open>
  \<open>handleResponse\<close>, for the worker's \<open>cfg\<close> and \<open>svc\<close>. The goroutines of one batch run
  concurrently; the model runs them in the order of the batch. The call \<open>j.ID()\<close> that
  builds the logger stands in the loop itself, outside the goroutine and its \<open>recover\<close>:
  a panic there is a panic of the consumer loop.
\<close>

fun handleResponse :: "Config \<Rightarrow> SQSAPI \<Rightarrow> HandlerFunc \<Rightarrow> Message list \<Rightarrow> world \<Rightarrow> world outcome" where
  "handleResponse c s handler [] w = Returned w"
| "handleResponse c s handler (m # msgs) w =
     (let j = NewJob c m s
      in case ID j of
           Panicked \<Rightarrow> Panicked
         | Returned jid \<Rightarrow> handleResponse c s handler msgs (handleResponse_go handler j w))"

text \<open>The \<open>ReceiveMessageInput\<close> that \<open>receive\<close> builds from the configuration.\<close>

definition receive_request :: "Config \<Rightarrow> request" where
  "receive_request c =
     ReceiveMessageInput [ApproximateReceiveCount]
       (RetrievalMaxNumberOfMessages (Consumer c)) [''All''] (QueueURL c)
       (RetrievalVisibilityTimeout (Consumer c))
       (RetrievalWaitTimeSeconds (Consumer c))"

text \<open>
  The consumer loop \<open>receive\<close>, for the worker's \<open>cfg\<close> and \<open>svc\<close>. \<open>ctx\<close> tells whether
  the context is done when the loop looks at it, after the events so far. The loop may
  run forever: the result is \<open>None\<close> then, \<open>Some (Returned w)\<close> when it returns in the
  world \<open>w\<close>, and \<open>Some Panicked\<close> when a panic leaves it (no \<open>recover\<close> stands between
  the loop and the process).
\<close>

partial_function (option) receive ::
  "Config \<Rightarrow> SQSAPI \<Rightarrow> (event list \<Rightarrow> bool) \<Rightarrow> HandlerFunc \<Rightarrow> world \<Rightarrow> world outcome option" where
  "receive c s ctx handler w =
     (if ctx (events w) then Some (Returned w)
      else
        let req = receive_request c;
            err = Send_err s (events w) req;
            Messages = Send_Messages s (events w) req;
            w1 = w\<lparr>events := events w @ [Send req]\<rparr>
        in if err \<noteq> None then
             (let w2 = w1\<lparr>receiveErrorTotal := receiveErrorTotal w1 + 1\<rparr>
              in if RunOnce (Consumer c) then Some (Returned w2)
                 else receive c s ctx handler
                        (w2\<lparr>events := events w2 @ [Sleep (RetrievalErrWait (Consumer c))]\<rparr>))
           else
             (let w2 = w1\<lparr>receivedTotal := receivedTotal w1 + length Messages\<rparr>
              in case (if length Messages = 0 then Returned w2
                       else handleResponse c s handler Messages w2) of
                   Panicked \<Rightarrow> Some Panicked
                 | Returned w3 \<Rightarrow>
                     let w4 = (if RunSlowly (Consumer c) > 0
                               then w3\<lparr>events := events w3 @ [Sleep (RunSlowly (Consumer c))]\<rparr>
                               else w3)
                     in if RunOnce (Consumer c) then Some (Returned w4)
                        else receive c s ctx handler w4))"

text \<open>
  The same loop, watched for a number of iterations: \<open>receive_upto n\<close> runs at most \<open>n\<close>
  iterations and tells whether the loop is over by then (\<open>Done\<close>, with what \<open>receive\<close>
  gives) or is at its top again (\<open>Running\<close>, in the world reached). It shows what a loop
  that never returns does on its way.
\<close>

datatype progress = Done "world outcome" | Running world

fun receive_upto ::
  "nat \<Rightarrow> Config \<Rightarrow> SQSAPI \<Rightarrow> (event list \<Rightarrow> bool) \<Rightarrow> HandlerFunc \<Rightarrow> world \<Rightarrow> progress" where
  "receive_upto 0 c s ctx handler w = Running w"
| "receive_upto (Suc n) c s ctx handler w =
     (if ctx (events w) then Done (Returned w)
      else
        let req = receive_request c;
            err = Send_err s (events w) req;
            Messages = Send_Messages s (events w) req;
            w1 = w\<lparr>events := events w @ [Send req]\<rparr>
        in if err \<noteq> None then
             (let w2 = w1\<lparr>receiveErrorTotal := receiveErrorTotal w1 + 1\<rparr>
              in if RunOnce (Consumer c) then Done (Returned w2)
                 else receive_upto n c s ctx handler
                        (w2\<lparr>events := events w2 @ [Sleep (RetrievalErrWait (Consumer c))]\<rparr>))
           else
             (let w2 = w1\<lparr>receivedTotal := receivedTotal w1 + length Messages\<rparr>
              in case (if length Messages = 0 then Returned w2
                       else handleResponse c s handler Messages w2) of
                   Panicked \<Rightarrow> Done Panicked
                 | Returned w3 \<Rightarrow>
                     let w4 = (if RunSlowly (Consumer c) > 0
                               then w3\<lparr>events := events w3 @ [Sleep (RunSlowly (Consumer c))]\<rparr>
                               else w3)
                     in if RunOnce (Consumer c) then Done (Returned w4)
                        else receive_upto n c s ctx handler w4))"

section \<open>Vocabulary of the statements\<close>

text \<open>The three writers of the \<open>Job\<close> interface, as one call.\<close>

datatype terminal = OpDelete | OpRelease int | OpBackoff

fun terminal_call ::
  "terminal \<Rightarrow> sqsJob \<Rightarrow> world \<Rightarrow> error option outcome \<times> sqsJob \<times> world" where
  "terminal_call OpDelete j w = Delete j w"
| "terminal_call (OpRelease secs) j w = Release j w secs"
| "terminal_call OpBackoff j w = Backoff j w"

text \<open>The requests of a terminal call: delete and change-visibility.\<close>

definition terminal_request :: "request \<Rightarrow> bool" where
  "terminal_request req =
     (case req of
        DeleteMessageInput u h \<Rightarrow> True
      | ChangeMessageVisibilityInput u h t \<Rightarrow> True
      | ReceiveMessageInput a n m u v t \<Rightarrow> False)"

text \<open>The requests sent so far; their number is the transport call count.\<close>

definition transport_calls :: "world \<Rightarrow> request list" where
  "transport_calls w =
     concat (map (\<lambda>e. case e of Send r \<Rightarrow> [r] | Sleep d \<Rightarrow> []) (events w))"

text \<open>
  The \<open>handled\<close> flag before and after each call of a sequence of terminal calls on one
  job (a handler that goes on after an error, or after a panic it recovers from).
\<close>

fun handled_trace :: "terminal list \<Rightarrow> sqsJob \<Rightarrow> world \<Rightarrow> bool list" where
  "handled_trace [] j w = [handled j]"
| "handled_trace (op # ops) j w =
     handled j # (case terminal_call op j w of (r, j', w') \<Rightarrow> handled_trace ops j' w')"

text \<open>
  The visibility clamp in the specification's words, to compare \<open>Release\<close> with: the
  requested value is brought into \<open>[lo, hi]\<close> (the lower bound first, the upper bound
  after it), then below the ceiling of 12 hours, as ceiling minus one second.
\<close>

definition visibility_clamp_spec :: "int \<Rightarrow> int \<Rightarrow> int \<Rightarrow> int" where
  "visibility_clamp_spec lo hi x = min (min (max x lo) hi) 43199"

section \<open>Fixtures of the test suite\<close>

text \<open>
  The clients, messages and configuration that \<open>job_test.go\<close> builds: a client whose
  every request succeeds (\<open>deleteSQSClient\<close>, \<open>releaseSQSClient\<close>), one whose every
  request fails with \<open>"i just errored"\<close>, the empty \<open>sqs.Message{}\<close>, a message with
  the identifier \<open>"123"\<close> and a given receive count, and the default configuration with
  the constant \<open>BackoffCalc\<close> of \<open>TestBackoff\<close>.
\<close>

definition okSQSClient :: SQSAPI where
  "okSQSClient = \<lparr>Send_err = (\<lambda>h r. None), Send_Messages = (\<lambda>h r. [])\<rparr>"

definition erroredSQSClient :: SQSAPI where
  "erroredSQSClient =
     \<lparr>Send_err = (\<lambda>h r. Some (ErrOther ''i just errored'')), Send_Messages = (\<lambda>h r. [])\<rparr>"

definition world0 :: world where
  "world0 =
     \<lparr>events = [], receiveErrorTotal = 0, receivedTotal = 0, jobPanicTotal = 0,
      jobErrorTotal = 0, jobProcessedTotal = 0\<rparr>"

definition emptyMessage :: Message where
  "emptyMessage =
     \<lparr>Attributes = Map.empty, Body = None, MessageAttributes = Map.empty,
      MessageId = None, ReceiptHandle = None\<rparr>"

definition message123 :: Message where
  "message123 = emptyMessage\<lparr>MessageId := Some ''123''\<rparr>"

definition countMessage :: "string \<Rightarrow> Message" where
  "countMessage n = message123\<lparr>Attributes := [ApproximateReceiveCount \<mapsto> n]\<rparr>"

definition testConfig :: Config where
  "testConfig = NewDefaultConfig (\<lambda>try. 12) ''http://some/queue/url'' 1"

text \<open>A client whose first request fails and whose later requests succeed, with no
  message to deliver; a context that is cancelled once three events have happened.\<close>

definition flakySQSClient :: SQSAPI where
  "flakySQSClient =
     \<lparr>Send_err = (\<lambda>h r. if h = [] then Some (ErrOther ''i just errored'') else None),
      Send_Messages = (\<lambda>h r. [])\<rparr>"

definition cancelAfter3 :: "event list \<Rightarrow> bool" where
  "cancelAfter3 h = (length h \<ge> 3)"

text \<open>Handlers: one that does nothing, one that panics with a value, one that calls
  \<open>panic(nil)\<close>, and the handler that calls one writer of the job and returns what it
  returns (a nil dereference in the writer is a panic of the handler, with the runtime's
  error as its value).\<close>

definition idleHandler :: HandlerFunc where
  "idleHandler j w = (HReturned None, j, w)"




lemmas fixtures =
  okSQSClient_def erroredSQSClient_def world0_def emptyMessage_def message123_def
  countMessage_def testConfig_def NewDefaultConfig_def NewJob_def

lemmas parse = ParseInt_def ParseUint_def is_digit_def

section \<open>The writers, case by case\<close>

lemma Delete_handled:
  "handled j \<Longrightarrow> Delete j w = (Returned (Some ErrAlreadyHandled), j, w)"
  by (simp add: Delete_def)

lemma Release_handled:
  "handled j \<Longrightarrow> Release j w x = (Returned (Some ErrAlreadyHandled), j, w)"
  by (simp add: Release_def)

lemma Backoff_handled:
  "handled j \<Longrightarrow> Backoff j w =
     (case Tries j of
        Panicked \<Rightarrow> Panicked
      | Returned (t, None) \<Rightarrow>
          (if MessageId (msg j) = None then Panicked else Returned (Some ErrAlreadyHandled))
      | Returned (t, Some e) \<Rightarrow> Returned (Some e), j, w)"
  by (auto simp: Backoff_def ID_def Release_handled split: outcome.splits option.splits)

text \<open>With an identifier, \<open>Release\<close> on an unhandled job is one request and its answer.\<close>

lemma Release_unhandled:
  assumes "\<not> handled j" and "MessageId (msg j) = Some i"
  shows "Release j w x =
    (let v0 = min (max x (MinVisibilityTimeout (Job (cfg j)))) (MaxVisibilityTimeout (Job (cfg j)));
         v = (if v0 \<ge> 43200 then v0 - 1 else v0);
         req = ChangeMessageVisibilityInput (QueueURL (cfg j)) (ReceiptHandle (msg j)) v;
         w' = w\<lparr>events := events w @ [Send req]\<rparr>
     in case Send_err (svc j) (events w) req of
          None \<Rightarrow> (Returned None, j\<lparr>handled := True\<rparr>, w')
        | Some e \<Rightarrow> (Returned (Some e), j, w'))"
  using assms by (auto simp: Release_def ID_def Let_def min_def max_def split: option.splits)

lemma Release_succeeded:
  assumes "Release j w x = (Returned None, j1, w1)"
  shows "\<not> handled j \<and> j1 = j\<lparr>handled := True\<rparr> \<and> MessageId (msg j) \<noteq> None \<and>
         (\<exists>req. w1 = w\<lparr>events := events w @ [Send req]\<rparr> \<and> terminal_request req \<and>
                Send_err (svc j) (events w) req = None)"
  using assms
  by (auto simp: Release_def ID_def Let_def terminal_request_def split: if_splits option.splits)

lemma Delete_succeeded:
  assumes "Delete j w = (Returned None, j1, w1)"
  shows "\<not> handled j \<and> j1 = j\<lparr>handled := True\<rparr> \<and> MessageId (msg j) \<noteq> None \<and>
         (\<exists>req. w1 = w\<lparr>events := events w @ [Send req]\<rparr> \<and> terminal_request req \<and>
                Send_err (svc j) (events w) req = None)"
  using assms
  by (auto simp: Delete_def ID_def Let_def terminal_request_def split: if_splits option.splits)

lemma Backoff_cases:
  "Backoff j w = (Panicked, j, w) \<or> (\<exists>e. Backoff j w = (Returned (Some e), j, w)) \<or>
   (\<exists>x. Backoff j w = Release j w x)"
  by (auto simp: Backoff_def split: outcome.splits option.splits)

lemma terminal_succeeded:
  assumes "terminal_call op1 j w = (Returned None, j1, w1)"
  shows "\<not> handled j \<and> j1 = j\<lparr>handled := True\<rparr> \<and> MessageId (msg j) \<noteq> None \<and>
         (\<exists>req. w1 = w\<lparr>events := events w @ [Send req]\<rparr> \<and> terminal_request req \<and>
                Send_err (svc j) (events w) req = None)"
proof (cases op1)
  case OpDelete
  with assms have "Delete j w = (Returned None, j1, w1)" by simp
  from Delete_succeeded [OF this] show ?thesis .
next
  case (OpRelease x)
  with assms have "Release j w x = (Returned None, j1, w1)" by simp
  from Release_succeeded [OF this] show ?thesis .
next
  case OpBackoff
  with assms have b: "Backoff j w = (Returned None, j1, w1)" by simp
  with Backoff_cases [of j w] obtain x where "Release j w x = (Returned None, j1, w1)"
    by auto
  from Release_succeeded [OF this] show ?thesis .
qed

text \<open>What one call does to the flag, for each writer.\<close>

lemma Release_step:
  assumes "Release j w x = (r, j', w')"
  shows "(handled j \<longrightarrow> j' = j \<and> w' = w) \<and>
         (j' = j \<or> j' = j\<lparr>handled := True\<rparr>) \<and>
         (\<not> handled j \<and> handled j' \<longrightarrow>
            (\<exists>req. w' = w\<lparr>events := events w @ [Send req]\<rparr> \<and> terminal_request req \<and>
                   Send_err (svc j) (events w) req = None)) \<and>
         (\<forall>req e. \<not> handled j \<and> events w' = events w @ [Send req] \<and>
              Send_err (svc j) (events w) req = Some e
            \<longrightarrow> r = Returned (Some e) \<and> j' = j)"
  using assms
  by (auto simp: Release_def ID_def Let_def terminal_request_def split: if_splits option.splits)

lemma Delete_step:
  assumes "Delete j w = (r, j', w')"
  shows "(handled j \<longrightarrow> j' = j \<and> w' = w) \<and>
         (j' = j \<or> j' = j\<lparr>handled := True\<rparr>) \<and>
         (\<not> handled j \<and> handled j' \<longrightarrow>
            (\<exists>req. w' = w\<lparr>events := events w @ [Send req]\<rparr> \<and> terminal_request req \<and>
                   Send_err (svc j) (events w) req = None)) \<and>
         (\<forall>req e. \<not> handled j \<and> events w' = events w @ [Send req] \<and>
              Send_err (svc j) (events w) req = Some e
            \<longrightarrow> r = Returned (Some e) \<and> j' = j)"
  using assms
  by (auto simp: Delete_def ID_def Let_def terminal_request_def split: if_splits option.splits)

lemma terminal_step:
  assumes "terminal_call op j w = (r, j', w')"
  shows "(handled j \<longrightarrow> j' = j \<and> w' = w) \<and>
         (j' = j \<or> j' = j\<lparr>handled := True\<rparr>) \<and>
         (\<not> handled j \<and> handled j' \<longrightarrow>
            (\<exists>req. w' = w\<lparr>events := events w @ [Send req]\<rparr> \<and> terminal_request req \<and>
                   Send_err (svc j) (events w) req = None)) \<and>
         (\<forall>req e. \<not> handled j \<and> events w' = events w @ [Send req] \<and>
              Send_err (svc j) (events w) req = Some e
            \<longrightarrow> r = Returned (Some e) \<and> j' = j)"
proof (cases op)
  case OpDelete
  with assms have "Delete j w = (r, j', w')" by simp
  from Delete_step [OF this] show ?thesis .
next
  case (OpRelease x)
  with assms have "Release j w x = (r, j', w')" by simp
  from Release_step [OF this] show ?thesis .
next
  case OpBackoff
  with assms have b: "Backoff j w = (r, j', w')" by simp
  consider "Backoff j w = (Panicked, j, w)" | e where "Backoff j w = (Returned (Some e), j, w)"
    | x where "Backoff j w = Release j w x"
    using Backoff_cases [of j w] by blast
  then show ?thesis
  proof cases
    case 1
    with b show ?thesis by auto
  next
    case 2
    with b show ?thesis by auto
  next
    case 3
    with b have "Release j w x = (r, j', w')" by simp
    from Release_step [OF this] show ?thesis .
  qed
qed

lemma handled_trace_handled:
  "handled j \<Longrightarrow> handled_trace ops j w = replicate (Suc (length ops)) True"
proof (induction ops arbitrary: j w)
  case Nil
  then show ?case by simp
next
  case (Cons op ops)
  obtain r j' w' where c: "terminal_call op j w = (r, j', w')"
    by (cases "terminal_call op j w")
  from terminal_step [OF c] Cons.prems have "j' = j" by simp
  with Cons c show ?case by simp
qed

lemma handled_trace_shape:
  "\<exists>k. k \<le> Suc (length ops) \<and>
     handled_trace ops j w = replicate k False @ replicate (Suc (length ops) - k) True \<and>
     (k = 0 \<longleftrightarrow> handled j)"
proof (induction ops arbitrary: j w)
  case Nil
  show ?case by (cases "handled j") auto
next
  case (Cons op ops)
  show ?case
  proof (cases "handled j")
    case True
    from handled_trace_handled [OF this, of "op # ops" w] True show ?thesis
      by (intro exI [of _ 0]) simp
  next
    case False
    obtain r j' w' where c: "terminal_call op j w = (r, j', w')"
      by (cases "terminal_call op j w")
    from Cons.IH [of j' w'] obtain k where k: "k \<le> Suc (length ops)"
      "handled_trace ops j' w' = replicate k False @ replicate (Suc (length ops) - k) True"
      by blast
    have "handled_trace (op # ops) j w =
            replicate (Suc k) False @ replicate (Suc (length (op # ops)) - Suc k) True"
      using False c k by simp
    with k(1) False show ?thesis by (intro exI [of _ "Suc k"]) simp
  qed
qed

lemma world_update_swap:
  "(w :: world)\<lparr>receiveErrorTotal := a, events := b\<rparr> =
   w\<lparr>events := b, receiveErrorTotal := a\<rparr>"
  by (cases w) simp

section \<open>Terminal calls on a handled job\<close>

text \<open>
  C1 (as stated, refuted). After a successful \<open>Delete\<close> on a message without the
  receive-count attribute, \<open>Backoff\<close> returns the error of \<open>Tries\<close>, not
  \<open>ErrAlreadyHandled\<close>: \<open>Backoff\<close> asks for the attempt count before \<open>Release\<close> looks
  at the flag.
\<close>

theorem Backoff_after_Delete_counterexample:
  "fst (Delete (NewJob testConfig message123 okSQSClient) world0) = Returned None \<and>
   fst (Backoff (fst (snd (Delete (NewJob testConfig message123 okSQSClient) world0)))
          (snd (snd (Delete (NewJob testConfig message123 okSQSClient) world0))))
     = Returned (Some ErrReceiveCount) \<and>
   ErrReceiveCount \<noteq> ErrAlreadyHandled"
  by (simp add: Delete_def Backoff_def Tries_def Attribute_def ID_def fixtures)

text \<open>
  C1 (amended). After a terminal call that returned nil, exactly one request has been
  sent; a second terminal call sends none and leaves the job and the world as they are;
  a second \<open>Delete\<close> or \<open>Release\<close> returns \<open>ErrAlreadyHandled\<close>; a second \<open>Backoff\<close>
  returns \<open>ErrAlreadyHandled\<close> when \<open>Tries\<close> gives an attempt count, and the error (or
  the panic) of \<open>Tries\<close> otherwise.
\<close>

theorem second_terminal_call:
  assumes "terminal_call op1 j w = (Returned None, j1, w1)"
  shows "length (transport_calls w1) = length (transport_calls w) + 1 \<and>
         snd (terminal_call op2 j1 w1) = (j1, w1) \<and>
         (op2 \<noteq> OpBackoff \<longrightarrow> fst (terminal_call op2 j1 w1) = Returned (Some ErrAlreadyHandled)) \<and>
         (op2 = OpBackoff \<longrightarrow> fst (terminal_call op2 j1 w1) =
            (case Tries j1 of
               Panicked \<Rightarrow> Panicked
             | Returned (t, None) \<Rightarrow> Returned (Some ErrAlreadyHandled)
             | Returned (t, Some e) \<Rightarrow> Returned (Some e)))"
proof -
  from terminal_succeeded [OF assms]
  obtain req where h: "handled j1" and i: "MessageId (msg j1) \<noteq> None"
    and w1: "w1 = w\<lparr>events := events w @ [Send req]\<rparr>"
    by auto
  have "length (transport_calls w1) = length (transport_calls w) + 1"
    by (simp add: w1 transport_calls_def)
  moreover have "snd (terminal_call op2 j1 w1) = (j1, w1)"
    using h by (cases op2) (simp_all add: Delete_handled Release_handled Backoff_handled)
  moreover have "op2 \<noteq> OpBackoff \<longrightarrow>
      fst (terminal_call op2 j1 w1) = Returned (Some ErrAlreadyHandled)"
    using h by (cases op2) (simp_all add: Delete_handled Release_handled)
  moreover have "op2 = OpBackoff \<longrightarrow> fst (terminal_call op2 j1 w1) =
            (case Tries j1 of
               Panicked \<Rightarrow> Panicked
             | Returned (t, None) \<Rightarrow> Returned (Some ErrAlreadyHandled)
             | Returned (t, Some e) \<Rightarrow> Returned (Some e))"
    using h i by (auto simp: Backoff_handled split: outcome.splits option.splits)
  ultimately show ?thesis by blast
qed

theorem second_terminal_call_witness:
  "terminal_call OpDelete (NewJob testConfig (countMessage ''3'') okSQSClient) world0 =
     (Returned None,
      (NewJob testConfig (countMessage ''3'') okSQSClient)\<lparr>handled := True\<rparr>,
      world0\<lparr>events := [Send (DeleteMessageInput ''http://some/queue/url'' None)]\<rparr>) \<and>
   terminal_call OpDelete
      ((NewJob testConfig (countMessage ''3'') okSQSClient)\<lparr>handled := True\<rparr>)
      (world0\<lparr>events := [Send (DeleteMessageInput ''http://some/queue/url'' None)]\<rparr>) =
     (Returned (Some ErrAlreadyHandled),
      (NewJob testConfig (countMessage ''3'') okSQSClient)\<lparr>handled := True\<rparr>,
      world0\<lparr>events := [Send (DeleteMessageInput ''http://some/queue/url'' None)]\<rparr>) \<and>
   fst (terminal_call OpBackoff
      ((NewJob testConfig (countMessage ''3'') okSQSClient)\<lparr>handled := True\<rparr>)
      (world0\<lparr>events := [Send (DeleteMessageInput ''http://some/queue/url'' None)]\<rparr>)) =
     Returned (Some ErrAlreadyHandled) \<and>
   length (transport_calls
      (world0\<lparr>events := [Send (DeleteMessageInput ''http://some/queue/url'' None)]\<rparr>)) = 1"
proof -
  let ?j = "NewJob testConfig (countMessage ''3'') okSQSClient"
  let ?w1 = "world0\<lparr>events := [Send (DeleteMessageInput ''http://some/queue/url'' None)]\<rparr>"
  have d: "terminal_call OpDelete ?j world0 = (Returned None, ?j\<lparr>handled := True\<rparr>, ?w1)"
    by (simp add: Delete_def ID_def fixtures)
  have t: "Tries (?j\<lparr>handled := True\<rparr>) = Returned (2, None)"
    by (simp add: Tries_def Attribute_def fixtures parse)
  have c: "length (transport_calls world0) = 0"
    by (simp add: transport_calls_def world0_def)
  show ?thesis
    using d second_terminal_call [OF d, of OpDelete] second_terminal_call [OF d, of OpBackoff] t c
    by (simp add: prod_eq_iff)
qed

section \<open>The visibility clamp of Release\<close>

text \<open>
  C2 (as stated, refuted). With \<open>MaxVisibilityTimeout = 40\<close>, as in
  \<open>TestReleaseConfigOverrides\<close>, a request of 43200 seconds sends 40, not 43199: the
  configured maximum applies first and the result is already below the ceiling.
\<close>

theorem Release_max_override_counterexample:
  "events (snd (snd (Release
      (NewJob (testConfig\<lparr>Job := (Job testConfig)\<lparr>MaxVisibilityTimeout := 40\<rparr>\<rparr>)
         message123 okSQSClient) world0 43200)))
     = [Send (ChangeMessageVisibilityInput ''http://some/queue/url'' None 40)]
   \<and> (43200 :: int) \<ge> 43200 \<and> (40 :: int) \<noteq> 43199"
  by (simp add: Release_def ID_def fixtures)

text \<open>
  C2 (amended). For a configuration whose \<open>MaxVisibilityTimeout\<close> is at most 43200, and
  an unhandled job with an identifier, \<open>Release x\<close> sends exactly one request, whose
  timeout is \<open>visibility_clamp_spec\<close>: \<open>x\<close> raised to the minimum, then lowered to the
  maximum, then cut to 43199, a later step winning over an earlier one. The value sent
  is below 43200; for \<open>x\<close> below the minimum it is the minimum (when that is no greater
  than the maximum and below 43200); for \<open>x\<close> above the maximum it is the maximum (when
  that is below 43200); for \<open>x\<close> of 43200 or more it is the smaller of the maximum and
  43199.
\<close>

theorem Release_clamp:
  assumes "\<not> handled j" and "MessageId (msg j) \<noteq> None"
    and "MaxVisibilityTimeout (Job (cfg j)) \<le> 43200"
  shows "events (snd (snd (Release j w x))) =
           events w @ [Send (ChangeMessageVisibilityInput (QueueURL (cfg j)) (ReceiptHandle (msg j))
             (visibility_clamp_spec (MinVisibilityTimeout (Job (cfg j)))
                (MaxVisibilityTimeout (Job (cfg j))) x))] \<and>
         visibility_clamp_spec (MinVisibilityTimeout (Job (cfg j)))
           (MaxVisibilityTimeout (Job (cfg j))) x < 43200 \<and>
         (x < MinVisibilityTimeout (Job (cfg j)) \<and>
          MinVisibilityTimeout (Job (cfg j)) \<le> MaxVisibilityTimeout (Job (cfg j)) \<and>
          MinVisibilityTimeout (Job (cfg j)) < 43200
            \<longrightarrow> visibility_clamp_spec (MinVisibilityTimeout (Job (cfg j)))
                  (MaxVisibilityTimeout (Job (cfg j))) x = MinVisibilityTimeout (Job (cfg j))) \<and>
         (x > MaxVisibilityTimeout (Job (cfg j)) \<and> MaxVisibilityTimeout (Job (cfg j)) < 43200
            \<longrightarrow> visibility_clamp_spec (MinVisibilityTimeout (Job (cfg j)))
                  (MaxVisibilityTimeout (Job (cfg j))) x = MaxVisibilityTimeout (Job (cfg j))) \<and>
         (x \<ge> 43200
            \<longrightarrow> visibility_clamp_spec (MinVisibilityTimeout (Job (cfg j)))
                  (MaxVisibilityTimeout (Job (cfg j))) x
                = min (MaxVisibilityTimeout (Job (cfg j))) 43199)"
proof -
  from assms(2) obtain i where i: "MessageId (msg j) = Some i" by auto
  let ?lo = "MinVisibilityTimeout (Job (cfg j))" and ?hi = "MaxVisibilityTimeout (Job (cfg j))"
  have v: "(if min (max x ?lo) ?hi \<ge> 43200 then min (max x ?lo) ?hi - 1 else min (max x ?lo) ?hi)
      = visibility_clamp_spec ?lo ?hi x"
    using assms(3) by (auto simp: visibility_clamp_spec_def min_def max_def)
  have "events (snd (snd (Release j w x))) =
           events w @ [Send (ChangeMessageVisibilityInput (QueueURL (cfg j)) (ReceiptHandle (msg j))
             (visibility_clamp_spec ?lo ?hi x))]"
    unfolding Release_unhandled [OF assms(1) i] Let_def v
    by (simp split: option.splits)
  moreover have "visibility_clamp_spec ?lo ?hi x < 43200"
    by (simp add: visibility_clamp_spec_def)
  moreover have "x < ?lo \<and> ?lo \<le> ?hi \<and> ?lo < 43200 \<longrightarrow> visibility_clamp_spec ?lo ?hi x = ?lo"
    by (auto simp: visibility_clamp_spec_def)
  moreover have "x > ?hi \<and> ?hi < 43200 \<longrightarrow> visibility_clamp_spec ?lo ?hi x = ?hi"
    by (auto simp: visibility_clamp_spec_def)
  moreover have "x \<ge> 43200 \<longrightarrow> visibility_clamp_spec ?lo ?hi x = min ?hi 43199"
    using assms(3) by (auto simp: visibility_clamp_spec_def)
  ultimately show ?thesis by blast
qed

text \<open>The three cases of \<open>TestReleaseConfigOverrides\<close>: minimum 100 and a request of 50,
  maximum 40 and a request of 50, the default bounds and a request of 12 hours.\<close>

theorem Release_clamp_witness:
  "events (snd (snd (Release
      (NewJob (testConfig\<lparr>Job := (Job testConfig)\<lparr>MinVisibilityTimeout := 100\<rparr>\<rparr>)
         message123 okSQSClient) world0 50)))
     = [Send (ChangeMessageVisibilityInput ''http://some/queue/url'' None 100)] \<and>
   events (snd (snd (Release
      (NewJob (testConfig\<lparr>Job := (Job testConfig)\<lparr>MaxVisibilityTimeout := 40\<rparr>\<rparr>)
         message123 okSQSClient) world0 50)))
     = [Send (ChangeMessageVisibilityInput ''http://some/queue/url'' None 40)] \<and>
   events (snd (snd (Release (NewJob testConfig message123 okSQSClient) world0 43200)))
     = [Send (ChangeMessageVisibilityInput ''http://some/queue/url'' None 43199)]"
  using
    Release_clamp [of "NewJob (testConfig\<lparr>Job := (Job testConfig)\<lparr>MinVisibilityTimeout := 100\<rparr>\<rparr>)
         message123 okSQSClient" world0 50]
    Release_clamp [of "NewJob (testConfig\<lparr>Job := (Job testConfig)\<lparr>MaxVisibilityTimeout := 40\<rparr>\<rparr>)
         message123 okSQSClient" world0 50]
    Release_clamp [of "NewJob testConfig message123 okSQSClient" world0 43200]
  by (simp add: fixtures visibility_clamp_spec_def)

text \<open>
  Outside the amended claim: the last step of \<open>Release\<close> is a decrement, not a cut. With
  a configured maximum above 43200 the value sent can stay at or above the ceiling.
\<close>

lemma Release_decrement_above_ceiling:
  "events (snd (snd (Release
      (NewJob (testConfig\<lparr>Job := (Job testConfig)\<lparr>MaxVisibilityTimeout := 50000\<rparr>\<rparr>)
         message123 okSQSClient) world0 50000)))
     = [Send (ChangeMessageVisibilityInput ''http://some/queue/url'' None 49999)]"
  by (simp add: Release_def ID_def fixtures)

section \<open>The handled flag\<close>

text \<open>
  C3. A new job is unhandled. One terminal call changes nothing of the job but the
  flag, and the flag only from false to true: a handled job stays handled, and the call
  leaves it and the world as they are. The flag becomes true only in a call that sent
  one delete or change-visibility request which the transport answered without error.
  When the request a call sent is answered with an error, the call returns that error
  and leaves the job unhandled and unchanged. Over any sequence of terminal calls on a
  new job the flag is false up to some call and true from then on: it rises at most
  once.
\<close>

theorem handled_flag_transitions:
  assumes "terminal_call op j w = (r, j', w')"
  shows "\<not> handled (NewJob c m s) \<and>
         (handled j \<longrightarrow> handled j' \<and> j' = j \<and> w' = w) \<and>
         (j' = j \<or> j' = j\<lparr>handled := True\<rparr>) \<and>
         (\<not> handled j \<and> handled j' \<longrightarrow>
            (\<exists>req. w' = w\<lparr>events := events w @ [Send req]\<rparr> \<and> terminal_request req \<and>
                   Send_err (svc j) (events w) req = None)) \<and>
         (\<forall>req e. \<not> handled j \<and> events w' = events w @ [Send req] \<and>
              Send_err (svc j) (events w) req = Some e
            \<longrightarrow> r = Returned (Some e) \<and> \<not> handled j' \<and> j' = j) \<and>
         (\<exists>k. 0 < k \<and> k \<le> Suc (length ops) \<and>
            handled_trace ops (NewJob c m s) w0 =
              replicate k False @ replicate (Suc (length ops) - k) True)"
proof -
  from handled_trace_shape [of ops "NewJob c m s" w0]
  obtain k where "k \<le> Suc (length ops)"
    "handled_trace ops (NewJob c m s) w0 = replicate k False @ replicate (Suc (length ops) - k) True"
    "k = 0 \<longleftrightarrow> handled (NewJob c m s)" by blast
  moreover have n: "\<not> handled (NewJob c m s)" by (simp add: NewJob_def)
  ultimately have "\<exists>k. 0 < k \<and> k \<le> Suc (length ops) \<and>
            handled_trace ops (NewJob c m s) w0 =
              replicate k False @ replicate (Suc (length ops) - k) True"
    by (intro exI [of _ k]) simp
  with terminal_step [OF assms] n show ?thesis by auto
qed

text \<open>The cases of \<open>TestDelete\<close>: a failing delete leaves the job unhandled and returns
  the transport's error, a successful one sets the flag; and a sequence of three calls.\<close>

theorem handled_flag_transitions_witness:
  "terminal_call OpDelete (NewJob testConfig emptyMessage erroredSQSClient) world0 =
     (Returned (Some (ErrOther ''i just errored'')),
      NewJob testConfig emptyMessage erroredSQSClient,
      world0\<lparr>events := [Send (DeleteMessageInput ''http://some/queue/url'' None)]\<rparr>) \<and>
   \<not> handled (NewJob testConfig emptyMessage erroredSQSClient) \<and>
   terminal_call OpDelete (NewJob testConfig message123 okSQSClient) world0 =
     (Returned None,
      (NewJob testConfig message123 okSQSClient)\<lparr>handled := True\<rparr>,
      world0\<lparr>events := [Send (DeleteMessageInput ''http://some/queue/url'' None)]\<rparr>) \<and>
   handled_trace [OpBackoff, OpRelease 50, OpDelete] (NewJob testConfig message123 okSQSClient) world0
     = [False, False, True, True]"
proof -
  have e: "terminal_call OpDelete (NewJob testConfig emptyMessage erroredSQSClient) world0 =
     (Returned (Some (ErrOther ''i just errored'')),
      NewJob testConfig emptyMessage erroredSQSClient,
      world0\<lparr>events := [Send (DeleteMessageInput ''http://some/queue/url'' None)]\<rparr>)"
    by (simp add: Delete_def fixtures)
  have d: "terminal_call OpDelete (NewJob testConfig message123 okSQSClient) world0 =
     (Returned None,
      (NewJob testConfig message123 okSQSClient)\<lparr>handled := True\<rparr>,
      world0\<lparr>events := [Send (DeleteMessageInput ''http://some/queue/url'' None)]\<rparr>)"
    by (simp add: Delete_def ID_def fixtures)
  have t: "handled_trace [OpBackoff, OpRelease 50, OpDelete]
      (NewJob testConfig message123 okSQSClient) world0 = [False, False, True, True]"
    by (simp add: Backoff_def Tries_def Attribute_def Release_def Delete_def ID_def fixtures)
  show ?thesis
    using e d t
      handled_flag_transitions [OF e, of testConfig emptyMessage erroredSQSClient "[]" world0]
      handled_flag_transitions [OF d, of testConfig message123 okSQSClient
        "[OpBackoff, OpRelease 50, OpDelete]" world0]
    by (simp add: NewJob_def)
qed

section \<open>The attempt count\<close>

text \<open>
  C4 (as stated, refuted). A reported count of \<open>-5\<close> parses without error, fails the
  test \<open>tries > 0\<close> and is returned as it is: the result is negative, and it is not
  \<open>max (reported - 1) 0\<close>.
\<close>

theorem Tries_negative_counterexample:
  "ParseInt ''-5'' = (- 5, None) \<and>
   Tries (NewJob testConfig (countMessage ''-5'') okSQSClient) = Returned (- 5, None) \<and>
   (- 5 :: int) \<noteq> max (- 5 - 1) 0 \<and> (- 5 :: int) < 0"
  by (simp add: Tries_def Attribute_def fixtures parse)

text \<open>
  C4 (amended). When \<open>Attribute\<close> finds no receive count (neither among the sender-set
  nor among the system attributes), \<open>Tries\<close> fails with its own error; when the value
  found does not parse, it fails with the parser's error; when it parses to \<open>v\<close>, the
  result is \<open>v - 1\<close> for \<open>v > 0\<close> and \<open>v\<close> otherwise, without error, which is
  \<open>max (v - 1) 0\<close>, and not negative, for every \<open>v \<ge> 0\<close>. When \<open>Attribute\<close> panics, so
  does \<open>Tries\<close>.
\<close>

theorem Tries_result:
  "(Attribute j ApproximateReceiveCount = Returned (count, False)
      \<longrightarrow> Tries j = Returned (0, Some ErrReceiveCount)) \<and>
   (Attribute j ApproximateReceiveCount = Returned (count, True) \<and> ParseInt count = (v, Some e)
      \<longrightarrow> (\<exists>t. Tries j = Returned (t, Some e))) \<and>
   (Attribute j ApproximateReceiveCount = Returned (count, True) \<and> ParseInt count = (v, None)
      \<longrightarrow> Tries j = Returned (if v > 0 then v - 1 else v, None) \<and>
          (0 \<le> v \<longrightarrow> Tries j = Returned (max (v - 1) 0, None) \<and> 0 \<le> max (v - 1) 0)) \<and>
   (Attribute j ApproximateReceiveCount = Panicked \<longrightarrow> Tries j = Panicked)"
  by (auto simp: Tries_def)

text \<open>The cases of \<open>TestTries\<close> (no attribute; a count of 3), and a count that is no
  number, and a count of 0.\<close>

theorem Tries_result_witness:
  "Tries (NewJob testConfig emptyMessage okSQSClient) = Returned (0, Some ErrReceiveCount) \<and>
   Tries (NewJob testConfig (countMessage ''three'') okSQSClient) = Returned (0, Some ErrSyntax) \<and>
   Tries (NewJob testConfig (countMessage ''3'') okSQSClient) = Returned (2, None) \<and>
   Tries (NewJob testConfig (countMessage ''0'') okSQSClient) = Returned (0, None)"
  using Tries_result [of "NewJob testConfig emptyMessage okSQSClient" "[]" 0 ErrSyntax]
    Tries_result [of "NewJob testConfig (countMessage ''three'') okSQSClient" "''three''" 0 ErrSyntax]
    Tries_result [of "NewJob testConfig (countMessage ''3'') okSQSClient" "''3''" 3 ErrSyntax]
    Tries_result [of "NewJob testConfig (countMessage ''0'') okSQSClient" "''0''" 0 ErrSyntax]
  by (simp add: Tries_def Attribute_def fixtures parse ApproximateReceiveCount_def)

text \<open>
  The lookup is that of \<open>Attribute\<close>: a sender-set attribute of the same name is read
  before the system attribute, and stands in for it when the system attribute is absent.
\<close>

lemma Tries_sender_set_count:
  "Tries (NewJob testConfig
     (message123\<lparr>MessageAttributes :=
        [ApproximateReceiveCount \<mapsto> \<lparr>StringValue = Some ''3''\<rparr>]\<rparr>) okSQSClient)
     = Returned (2, None)"
  by (simp add: Tries_def Attribute_def fixtures parse)

section \<open>Backoff\<close>


text \<open>
  On a job that has its identifier the claim holds: when \<open>Tries\<close> gives the attempt count
  \<open>t\<close>, \<open>Backoff\<close> is \<open>Release\<close> called with exactly \<open>BackoffCalc t\<close>. Whatever the
  identifier, when \<open>Tries\<close> fails, as it does when the receive count is missing,
  \<open>Backoff\<close> returns that error and leaves the job and the world as they are: \<open>Release\<close>
  is not called and no request is sent. Without the identifier and with an attempt count
  \<open>Backoff\<close> panics and sends nothing.
\<close>

lemma Backoff_delegates:
  "(Tries j = Returned (t, None) \<and> MessageId (msg j) \<noteq> None
      \<longrightarrow> Backoff j w = Release j w (BackoffCalc (Job (cfg j)) t)) \<and>
   (Tries j = Returned (t, None) \<and> MessageId (msg j) = None
      \<longrightarrow> Backoff j w = (Panicked, j, w)) \<and>
   (Tries j = Returned (t, Some e) \<longrightarrow> Backoff j w = (Returned (Some e), j, w)) \<and>
   (Attribute j ApproximateReceiveCount = Returned (x, False)
      \<longrightarrow> Backoff j w = (Returned (Some ErrReceiveCount), j, w))"
  by (auto simp: Backoff_def Tries_def ID_def split: option.splits)

text \<open>The cases of \<open>TestBackoff\<close>: the constant policy 12 on a third delivery sends a
  timeout of 12; without the receive count the call fails and sends nothing.\<close>

lemma Backoff_TestBackoff:
  "Tries (NewJob testConfig (countMessage ''3'') okSQSClient) = Returned (2, None) \<and>
   BackoffCalc (Job testConfig) 2 = 12 \<and>
   Backoff (NewJob testConfig (countMessage ''3'') okSQSClient) world0 =
     Release (NewJob testConfig (countMessage ''3'') okSQSClient) world0 12 \<and>
   events (snd (snd (Backoff (NewJob testConfig (countMessage ''3'') okSQSClient) world0))) =
     [Send (ChangeMessageVisibilityInput ''http://some/queue/url'' None 12)] \<and>
   Backoff (NewJob testConfig emptyMessage okSQSClient) world0 =
     (Returned (Some ErrReceiveCount), NewJob testConfig emptyMessage okSQSClient, world0)"
proof -
  have t: "Tries (NewJob testConfig (countMessage ''3'') okSQSClient) = Returned (2, None)"
    by (simp add: Tries_def Attribute_def fixtures parse)
  have a: "Attribute (NewJob testConfig emptyMessage okSQSClient) ApproximateReceiveCount
      = Returned ([], False)"
    by (simp add: Attribute_def fixtures)
  have r: "events (snd (snd (Release (NewJob testConfig (countMessage ''3'') okSQSClient) world0 12)))
      = [Send (ChangeMessageVisibilityInput ''http://some/queue/url'' None 12)]"
    by (simp add: Release_def ID_def fixtures)
  show ?thesis
    using t a r
      Backoff_delegates [of "NewJob testConfig (countMessage ''3'') okSQSClient" 2 world0
        ErrSyntax "[]"]
      Backoff_delegates [of "NewJob testConfig emptyMessage okSQSClient" 0 world0 ErrSyntax "[]"]
    by (simp add: fixtures)
qed

section \<open>The consumer loop\<close>

text \<open>
  C6 (the code departs from the claim). A message without an identifier makes
  \<open>handleResponse\<close> panic, whatever the handler: \<open>j.ID()\<close> is called in the loop, before
  the goroutine and its \<open>recover\<close>. The panic leaves \<open>receive\<close>: a client that delivers
  \<open>sqs.Message{}\<close> ends the loop, and with it the process, by a panic.
\<close>

theorem nil_MessageId_panics_loop:
  "handleResponse c s handler (emptyMessage # msgs) w = Panicked \<and>
   receive testConfig (okSQSClient\<lparr>Send_Messages := \<lambda>h r. [emptyMessage]\<rparr>) (\<lambda>h. False)
     handler world0 = Some Panicked"
proof -
  have "handleResponse c s handler (emptyMessage # msgs) w = Panicked"
    by (simp add: ID_def fixtures)
  moreover have "receive testConfig (okSQSClient\<lparr>Send_Messages := \<lambda>h r. [emptyMessage]\<rparr>)
      (\<lambda>h. False) handler world0 = Some Panicked"
    by (subst receive.simps) (simp add: ID_def fixtures)
  ultimately show ?thesis by simp
qed

text \<open>
  \<open>receive_upto\<close> is \<open>receive\<close> watched: when the loop is over within \<open>n\<close> iterations,
  \<open>receive\<close> returns just that; when it is at its top again after \<open>n\<close> iterations,
  \<open>receive\<close> goes on from the world reached.
\<close>

lemma receive_upto_Done:
  "receive_upto n c s ctx handler w = Done r \<Longrightarrow> receive c s ctx handler w = Some r"
proof (induction n arbitrary: w)
  case 0
  then show ?case by simp
next
  case (Suc n)
  from Suc.prems show ?case
    by (subst receive.simps)
      (auto simp: Let_def split: if_splits outcome.splits dest: Suc.IH)
qed

lemma receive_upto_Running:
  "receive_upto n c s ctx handler w = Running w' \<Longrightarrow>
   receive c s ctx handler w = receive c s ctx handler w'"
proof (induction n arbitrary: w)
  case 0
  then show ?case by simp
next
  case (Suc n)
  from Suc.prems show ?case
    by (subst receive.simps)
      (auto simp: Let_def split: if_splits outcome.splits dest: Suc.IH)
qed

text \<open>One iteration whose request fails, without run-once.\<close>

lemma receive_upto_failure_step:
  assumes "\<not> ctx (events w)" and "Send_err s (events w) (receive_request c) \<noteq> None"
    and "\<not> RunOnce (Consumer c)"
  shows "receive_upto (Suc n) c s ctx handler w =
           receive_upto n c s ctx handler
             (w\<lparr>events := events w @
                  [Send (receive_request c), Sleep (RetrievalErrWait (Consumer c))],
                receiveErrorTotal := receiveErrorTotal w + 1\<rparr>)"
  using assms by (simp add: Let_def world_update_swap)

text \<open>A loop that is never cancelled, on a client that always fails, never returns: after
  \<open>n\<close> iterations it has sent \<open>n\<close> requests, each followed by one sleep.\<close>

lemma receive_upto_retries:
  assumes "\<forall>h. \<not> ctx h" and "\<forall>h. Send_err s h (receive_request c) \<noteq> None"
    and "\<not> RunOnce (Consumer c)"
  shows "receive_upto n c s ctx handler w =
           Running (w\<lparr>events := events w @
                        concat (replicate n
                          [Send (receive_request c), Sleep (RetrievalErrWait (Consumer c))]),
                      receiveErrorTotal := receiveErrorTotal w + n\<rparr>)"
proof (induction n arbitrary: w)
  case 0
  show ?case by (cases w) simp
next
  case (Suc n)
  have "receive_upto (Suc n) c s ctx handler w =
           receive_upto n c s ctx handler
             (w\<lparr>events := events w @
                  [Send (receive_request c), Sleep (RetrievalErrWait (Consumer c))],
                receiveErrorTotal := receiveErrorTotal w + 1\<rparr>)"
    using assms by (intro receive_upto_failure_step) auto
  then show ?case
    unfolding Suc.IH by (cases w) simp
qed

text \<open>
  C7. In an iteration that the context lets pass and whose \<open>ReceiveMessage\<close> request
  fails, the failure is counted, and:

  \<^item> with run-once, the loop returns at once, having sent that one request and slept not
    at all;

  \<^item> otherwise the iteration ends with the loop at its top again, in the world where the
    request and then one sleep of \<open>RetrievalErrWait\<close> have happened (\<open>receive_upto\<close> says
    so for a loop that returns and for one that never does), and the loop goes on from
    there;

  \<^item> there, unless the context is done, the loop polls again: the next request is sent
    after the sleep, and what follows is decided by its answer (a new failure and a
    new sleep, no message, or the handling of the messages delivered);

  \<^item> when no request ever succeeds and the context is never done, the loop does not
    return: after \<open>k\<close> iterations it has sent \<open>k\<close> requests, each followed by one sleep;

  \<^item> whenever the watched loop is over, \<open>receive\<close> returns what it shows.
\<close>

theorem receive_failure:
  assumes "\<not> ctx (events w)"
    and "Send_err s (events w) (receive_request c) = Some e"
  shows "(RunOnce (Consumer c) \<longrightarrow>
            receive c s ctx handler w =
              Some (Returned (w\<lparr>events := events w @ [Send (receive_request c)],
                                receiveErrorTotal := receiveErrorTotal w + 1\<rparr>))) \<and>
         (\<not> RunOnce (Consumer c) \<longrightarrow>
            receive c s ctx handler w =
              receive c s ctx handler
                (w\<lparr>events := events w @
                     [Send (receive_request c), Sleep (RetrievalErrWait (Consumer c))],
                   receiveErrorTotal := receiveErrorTotal w + 1\<rparr>)) \<and>
         (let req = receive_request c;
              d = RetrievalErrWait (Consumer c);
              w1 = w\<lparr>events := events w @ [Send req, Sleep d],
                     receiveErrorTotal := receiveErrorTotal w + 1\<rparr>;
              w2 = w1\<lparr>events := events w1 @ [Send req]\<rparr>;
              slowly = (\<lambda>v. if RunSlowly (Consumer c) > 0
                             then v\<lparr>events := events v @ [Sleep (RunSlowly (Consumer c))]\<rparr>
                             else v)
          in (RunOnce (Consumer c) \<longrightarrow>
                receive_upto (Suc n) c s ctx handler w =
                  Done (Returned (w\<lparr>events := events w @ [Send req],
                                    receiveErrorTotal := receiveErrorTotal w + 1\<rparr>))) \<and>
             (\<not> RunOnce (Consumer c) \<longrightarrow>
                receive_upto 1 c s ctx handler w = Running w1 \<and>
                receive_upto (Suc n) c s ctx handler w = receive_upto n c s ctx handler w1) \<and>
             (\<not> RunOnce (Consumer c) \<and> \<not> ctx (events w1) \<longrightarrow>
                (Send_err s (events w1) req \<noteq> None \<longrightarrow>
                   receive_upto 2 c s ctx handler w =
                     Running (w2\<lparr>events := events w2 @ [Sleep d],
                                receiveErrorTotal := receiveErrorTotal w + 2\<rparr>)) \<and>
                (Send_err s (events w1) req = None \<and> Send_Messages s (events w1) req = [] \<longrightarrow>
                   receive_upto 2 c s ctx handler w = Running (slowly w2)) \<and>
                (Send_err s (events w1) req = None \<and> Send_Messages s (events w1) req \<noteq> [] \<longrightarrow>
                   receive_upto 2 c s ctx handler w =
                     (case handleResponse c s handler (Send_Messages s (events w1) req)
                             (w2\<lparr>receivedTotal := receivedTotal w +
                                   length (Send_Messages s (events w1) req)\<rparr>) of
                        Panicked \<Rightarrow> Done Panicked
                      | Returned w3 \<Rightarrow> Running (slowly w3)))) \<and>
             (\<not> RunOnce (Consumer c) \<and> (\<forall>h. \<not> ctx h) \<and> (\<forall>h. Send_err s h req \<noteq> None) \<longrightarrow>
                receive_upto k c s ctx handler w =
                  Running (w\<lparr>events := events w @ concat (replicate k [Send req, Sleep d]),
                             receiveErrorTotal := receiveErrorTotal w + k\<rparr>))) \<and>
         (\<forall>m r. receive_upto m c s ctx handler w = Done r \<longrightarrow>
                receive c s ctx handler w = Some r)"
proof -
  let ?req = "receive_request c" and ?d = "RetrievalErrWait (Consumer c)"
  let ?w1 = "w\<lparr>events := events w @ [Send ?req, Sleep ?d],
                receiveErrorTotal := receiveErrorTotal w + 1\<rparr>"
  let ?w2 = "?w1\<lparr>events := events ?w1 @ [Send ?req]\<rparr>"
  let ?slowly = "\<lambda>v. if RunSlowly (Consumer c) > 0
                      then v\<lparr>events := events v @ [Sleep (RunSlowly (Consumer c))]\<rparr> else v"
  have ne: "Send_err s (events w) ?req \<noteq> None"
    using assms(2) by simp
  have unfolded: "receive c s ctx handler w =
          (if RunOnce (Consumer c)
           then Some (Returned (w\<lparr>events := events w @ [Send ?req],
                                receiveErrorTotal := receiveErrorTotal w + 1\<rparr>))
           else receive c s ctx handler ?w1)"
    using assms
    by (subst receive.simps) (simp add: Let_def world_update_swap)
  have once: "RunOnce (Consumer c) \<longrightarrow>
      receive_upto (Suc n) c s ctx handler w =
        Done (Returned (w\<lparr>events := events w @ [Send ?req],
                          receiveErrorTotal := receiveErrorTotal w + 1\<rparr>))"
    using assms by (simp add: Let_def)
  have step: "\<not> RunOnce (Consumer c) \<Longrightarrow>
      receive_upto (Suc m) c s ctx handler w = receive_upto m c s ctx handler ?w1" for m
    using assms(1) ne by (rule receive_upto_failure_step)
  have first: "\<not> RunOnce (Consumer c) \<longrightarrow> receive_upto 1 c s ctx handler w = Running ?w1"
    using step [of 0] by simp
  have two: "\<not> RunOnce (Consumer c) \<Longrightarrow>
      receive_upto 2 c s ctx handler w = receive_upto 1 c s ctx handler ?w1"
    using step [of 1] by (simp add: numeral_2_eq_2)
  have again_fail: "\<not> RunOnce (Consumer c) \<and> \<not> ctx (events ?w1) \<and>
      Send_err s (events ?w1) ?req \<noteq> None \<longrightarrow>
        receive_upto 2 c s ctx handler w =
          Running (?w2\<lparr>events := events ?w2 @ [Sleep ?d],
                      receiveErrorTotal := receiveErrorTotal w + 2\<rparr>)"
    using two by (cases w) (auto simp: Let_def)
  have again_none: "\<not> RunOnce (Consumer c) \<and> \<not> ctx (events ?w1) \<and>
      Send_err s (events ?w1) ?req = None \<and> Send_Messages s (events ?w1) ?req = [] \<longrightarrow>
        receive_upto 2 c s ctx handler w = Running (?slowly ?w2)"
    using two by (cases w) (auto simp: Let_def)
  have again_some: "\<not> RunOnce (Consumer c) \<and> \<not> ctx (events ?w1) \<and>
      Send_err s (events ?w1) ?req = None \<and> Send_Messages s (events ?w1) ?req \<noteq> [] \<longrightarrow>
        receive_upto 2 c s ctx handler w =
          (case handleResponse c s handler (Send_Messages s (events ?w1) ?req)
                  (?w2\<lparr>receivedTotal := receivedTotal w +
                        length (Send_Messages s (events ?w1) ?req)\<rparr>) of
             Panicked \<Rightarrow> Done Panicked
           | Returned w3 \<Rightarrow> Running (?slowly w3))"
    using two by (cases w) (auto simp: Let_def split: outcome.splits)
  have forever: "\<not> RunOnce (Consumer c) \<and> (\<forall>h. \<not> ctx h) \<and>
      (\<forall>h. Send_err s h ?req \<noteq> None) \<longrightarrow>
        receive_upto k c s ctx handler w =
          Running (w\<lparr>events := events w @ concat (replicate k [Send ?req, Sleep ?d]),
                     receiveErrorTotal := receiveErrorTotal w + k\<rparr>)"
    using receive_upto_retries [of ctx s c k handler w] by blast
  have c1: "RunOnce (Consumer c) \<longrightarrow>
      receive c s ctx handler w =
        Some (Returned (w\<lparr>events := events w @ [Send ?req],
                          receiveErrorTotal := receiveErrorTotal w + 1\<rparr>))"
    and c2: "\<not> RunOnce (Consumer c) \<longrightarrow>
      receive c s ctx handler w = receive c s ctx handler ?w1"
    using unfolded by simp_all
  have c3: "\<not> RunOnce (Consumer c) \<longrightarrow>
      receive_upto (Suc n) c s ctx handler w = receive_upto n c s ctx handler ?w1"
    using step [of n] by blast
  have link: "\<forall>m r. receive_upto m c s ctx handler w = Done r \<longrightarrow>
      receive c s ctx handler w = Some r"
    using receive_upto_Done by blast
  show ?thesis
    unfolding Let_def
    using c1 c2 c3 once first again_fail again_none again_some forever link
    by blast
qed

text \<open>
  With run-once and a client that fails, the loop stops after one request and no sleep.
  Without run-once, on a client whose first request fails, the loop sleeps 30 seconds
  and polls again; the context, cancelled after the third event, stops it there. On a
  client that always fails, with a context that is never done, the loop is still
  running after three iterations, having sent three requests and slept after each.
\<close>

theorem receive_failure_witness:
  "receive (Config_RunOnce testConfig) erroredSQSClient (\<lambda>h. False) idleHandler world0 =
     Some (Returned (world0\<lparr>events := [Send (receive_request (Config_RunOnce testConfig))],
                            receiveErrorTotal := 1\<rparr>)) \<and>
   receive testConfig flakySQSClient cancelAfter3 idleHandler world0 =
     Some (Returned (world0\<lparr>events := [Send (receive_request testConfig), Sleep 30000000000,
                                        Send (receive_request testConfig)],
                            receiveErrorTotal := 1\<rparr>)) \<and>
   receive_upto 1 testConfig erroredSQSClient (\<lambda>h. False) idleHandler world0 =
     Running (world0\<lparr>events := [Send (receive_request testConfig), Sleep 30000000000],
                     receiveErrorTotal := 1\<rparr>) \<and>
   receive_upto 2 testConfig flakySQSClient (\<lambda>h. False) idleHandler world0 =
     Running (world0\<lparr>events := [Send (receive_request testConfig), Sleep 30000000000,
                                 Send (receive_request testConfig)],
                     receiveErrorTotal := 1\<rparr>) \<and>
   receive_upto 3 testConfig erroredSQSClient (\<lambda>h. False) idleHandler world0 =
     Running (world0\<lparr>events := [Send (receive_request testConfig), Sleep 30000000000,
                                 Send (receive_request testConfig), Sleep 30000000000,
                                 Send (receive_request testConfig), Sleep 30000000000],
                     receiveErrorTotal := 3\<rparr>)"
proof -
  have once: "RunOnce (Consumer (Config_RunOnce testConfig))"
    by (simp add: Config_RunOnce_def)
  have e1: "Send_err erroredSQSClient (events world0) (receive_request (Config_RunOnce testConfig))
      = Some (ErrOther ''i just errored'')"
    by (simp add: erroredSQSClient_def)
  have c1: "\<not> (\<lambda>h. False) (events world0)"
    by simp
  have first: "receive (Config_RunOnce testConfig) erroredSQSClient (\<lambda>h. False) idleHandler world0 =
     Some (Returned (world0\<lparr>events := [Send (receive_request (Config_RunOnce testConfig))],
                            receiveErrorTotal := 1\<rparr>))"
    using receive_failure [where ctx = "\<lambda>h. False" and w = world0 and s = erroredSQSClient
        and c = "Config_RunOnce testConfig" and e = "ErrOther ''i just errored''"
        and handler = idleHandler and n = 0 and k = 0, OF c1 e1] once
    by (simp add: world0_def)
  have many: "\<not> RunOnce (Consumer testConfig)" "RunSlowly (Consumer testConfig) = 0"
    "RetrievalErrWait (Consumer testConfig) = 30000000000"
    by (simp_all add: fixtures)
  have e2: "Send_err flakySQSClient (events world0) (receive_request testConfig)
      = Some (ErrOther ''i just errored'')"
    by (simp add: flakySQSClient_def world0_def)
  have c2: "\<not> cancelAfter3 (events world0)"
    by (simp add: cancelAfter3_def world0_def)
  let ?w1 = "world0\<lparr>events := [Send (receive_request testConfig), Sleep 30000000000],
                    receiveErrorTotal := 1\<rparr>"
  let ?w2 = "world0\<lparr>events := [Send (receive_request testConfig), Sleep 30000000000,
                                Send (receive_request testConfig)],
                    receiveErrorTotal := 1\<rparr>"
  have s1: "receive testConfig flakySQSClient cancelAfter3 idleHandler world0 =
      receive testConfig flakySQSClient cancelAfter3 idleHandler ?w1"
    using receive_failure [where ctx = cancelAfter3 and w = world0 and s = flakySQSClient
        and c = testConfig and e = "ErrOther ''i just errored''"
        and handler = idleHandler and n = 0 and k = 0, OF c2 e2] many
    by (simp add: world0_def)
  have s2: "receive testConfig flakySQSClient cancelAfter3 idleHandler ?w1 =
      receive testConfig flakySQSClient cancelAfter3 idleHandler ?w2"
    using many
    by (subst receive.simps)
      (simp add: Let_def cancelAfter3_def flakySQSClient_def world0_def world_update_swap)
  have s3: "receive testConfig flakySQSClient cancelAfter3 idleHandler ?w2 = Some (Returned ?w2)"
    by (subst receive.simps) (simp add: cancelAfter3_def world0_def)
  have e3: "Send_err erroredSQSClient (events world0) (receive_request testConfig)
      = Some (ErrOther ''i just errored'')"
    by (simp add: erroredSQSClient_def)
  have u1: "receive_upto 1 testConfig erroredSQSClient (\<lambda>h. False) idleHandler world0 = Running ?w1"
    and u3: "receive_upto 3 testConfig erroredSQSClient (\<lambda>h. False) idleHandler world0 =
     Running (world0\<lparr>events := [Send (receive_request testConfig), Sleep 30000000000,
                                 Send (receive_request testConfig), Sleep 30000000000,
                                 Send (receive_request testConfig), Sleep 30000000000],
                     receiveErrorTotal := 3\<rparr>)"
    using receive_failure [where ctx = "\<lambda>h. False" and w = world0 and s = erroredSQSClient
        and c = testConfig and e = "ErrOther ''i just errored''"
        and handler = idleHandler and n = 0 and k = 3, OF c1 e3] many
    by (simp_all add: Let_def world0_def erroredSQSClient_def numeral_3_eq_3)
  have e4: "Send_err flakySQSClient (events world0) (receive_request testConfig)
      = Some (ErrOther ''i just errored'')"
    by (simp add: flakySQSClient_def world0_def)
  have u2: "receive_upto 2 testConfig flakySQSClient (\<lambda>h. False) idleHandler world0 = Running ?w2"
    using receive_failure [where ctx = "\<lambda>h. False" and w = world0 and s = flakySQSClient
        and c = testConfig and e = "ErrOther ''i just errored''"
        and handler = idleHandler and n = 0 and k = 0, OF c1 e4] many
    by (simp add: Let_def world0_def flakySQSClient_def)
  from first s1 s2 s3 u1 u2 u3 show ?thesis by simp
qed

section \<open>Accounting of a handler invocation\<close>




section \<open>The default backoff policy\<close>

text \<open>
  C9 (the code departs from the claim and from its own comment,
  \<open>(retry_count ** 3) + 15 + (rand(30) * (retry_count + 1))\<close>). The jitter is
  \<open>rand.Int63n(30)*try + 1\<close>: the draw times the attempt count, plus one. At attempt 0 the
  draw is multiplied by 0 and the delay is 16 for the least draw and for the greatest
  alike, where the comment's formula gives 15 and 44; at attempt 1 the greatest draw
  gives 46, where the comment's formula gives 74.
\<close>

theorem default_BackoffCalc_no_spread:
  "default_BackoffCalc 0 0 = Some 16 \<and> default_BackoffCalc 29 0 = Some 16 \<and>
   default_BackoffCalc 29 1 = Some 46 \<and>
   (0 :: int) ^ 3 + 15 + 29 * (0 + 1) = 44 \<and> (1 :: int) ^ 3 + 15 + 29 * (1 + 1) = 74"
  by (simp add: default_BackoffCalc_def)

section \<open>Attribute lookup\<close>

text \<open>
  C10. \<open>Attribute\<close> dereferences the \<open>StringValue\<close> of a sender-set entry without a
  check: when the sender-set attributes hold the key and the entry's string value is
  nil, the call panics, whatever the system attributes hold; it neither falls through to
  them nor returns \<open>("", false)\<close>. When every sender-set entry under the key carries a
  string value the call returns. So it panics in exactly that one case.
\<close>

theorem Attribute_nil_StringValue:
  "(MessageAttributes (msg j) attr = Some a \<and> StringValue a = None
      \<longrightarrow> Attribute j attr = Panicked) \<and>
   ((\<forall>a. MessageAttributes (msg j) attr = Some a \<longrightarrow> StringValue a \<noteq> None)
      \<longrightarrow> (\<exists>r. Attribute j attr = Returned r)) \<and>
   (Attribute j attr = Panicked
      \<longleftrightarrow> (\<exists>a. MessageAttributes (msg j) attr = Some a \<and> StringValue a = None))"
  by (auto simp: Attribute_def split: option.splits)

theorem Attribute_nil_StringValue_witness:
  "Attributes (emptyMessage\<lparr>Attributes := [''foo'' \<mapsto> ''sys''],
        MessageAttributes := [''foo'' \<mapsto> \<lparr>StringValue = None\<rparr>]\<rparr>) ''foo'' = Some ''sys'' \<and>
   Attribute (NewJob testConfig
     (emptyMessage\<lparr>Attributes := [''foo'' \<mapsto> ''sys''],
        MessageAttributes := [''foo'' \<mapsto> \<lparr>StringValue = None\<rparr>]\<rparr>) okSQSClient) ''foo''
     = Panicked \<and>
   Attribute (NewJob testConfig
     (emptyMessage\<lparr>MessageAttributes := [''foo'' \<mapsto> \<lparr>StringValue = Some ''bar''\<rparr>]\<rparr>)
     okSQSClient) ''foo''
     = Returned (''bar'', True)"
  using Attribute_nil_StringValue [of "NewJob testConfig
     (emptyMessage\<lparr>Attributes := [''foo'' \<mapsto> ''sys''],
        MessageAttributes := [''foo'' \<mapsto> \<lparr>StringValue = None\<rparr>]\<rparr>) okSQSClient"
     "''foo''" "\<lparr>StringValue = None\<rparr>"]
  by (simp add: fixtures Attribute_def)

end
